theory Spec2Isabelle
  imports Main "HOL-Library.Word"
begin

section \<open>The pantheon command group of cmd/pantheon.go\<close>

text \<open>
  The file translates the subcommands \<^verbatim>\<open>format\<close>, \<^verbatim>\<open>mount\<close>, \<^verbatim>\<open>umount\<close> and
  \<^verbatim>\<open>checkpoint\<close> into invocations of the same executable and runs them as a child
  process. The embedding keeps the functions of the file under their own names. What
  the Go code gets from outside the file is a parameter of the model: the parsed command
  line (\<open>ctx\<close>) and the operating system (\<open>env\<close>).
\<close>

subsection \<open>Outcomes and effects\<close>

text \<open>
  A call either returns, or ends the process: \<^verbatim>\<open>logger.Fatalf\<close> (the message is kept),
  a runtime panic, or \<^verbatim>\<open>os.Exit(code)\<close>. The effects a call has on the operating system
  are recorded in order: the existence probe \<^verbatim>\<open>os.Stat(path)\<close>, the signal subscription
  \<^verbatim>\<open>signal.Notify(c, os.Interrupt, syscall.SIGTERM)\<close>, the start of the relay goroutine,
  \<^verbatim>\<open>cmd.Run()\<close> of the executable on an argument list, and \<^verbatim>\<open>signal.Stop(c)\<close>.
\<close>

datatype 'a outcome = Return 'a | Fatalf string | Panic string | Exit int

datatype event =
    EvStat string
  | EvNotify
  | EvGoRelay
  | EvRun string "string list"
  | EvStop

type_synonym 'a io = "event list \<times> 'a outcome"

definition andThen :: "'a io \<Rightarrow> ('a \<Rightarrow> 'b io) \<Rightarrow> 'b io" where
  "andThen m f =
     (case m of
        (t, Return x) \<Rightarrow> (case f x of (t', r) \<Rightarrow> (t @ t', r))
      | (t, Fatalf s) \<Rightarrow> (t, Fatalf s)
      | (t, Panic s) \<Rightarrow> (t, Panic s)
      | (t, Exit n) \<Rightarrow> (t, Exit n))"

definition pure :: "'a outcome \<Rightarrow> 'a io" where
  "pure r = ([], r)"

definition halts :: "'a io \<Rightarrow> bool" where
  "halts m = (case snd m of Return x \<Rightarrow> False | Fatalf s \<Rightarrow> True | Panic s \<Rightarrow> True | Exit n \<Rightarrow> True)"

subsection \<open>The parsed command line\<close>

text \<open>
  \<^verbatim>\<open>cli.Flag\<close> is an interface; the type switch of \<^verbatim>\<open>buildFlagArgs\<close> tells six
  implementations apart, and every other one (named by its \<^verbatim>\<open>%T\<close>) is the default case.
  \<open>Names\<close> is \<^verbatim>\<open>flag.Names()\<close>.
\<close>

datatype flag_type =
    BoolFlag
  | StringFlag
  | IntFlag
  | Int64Flag
  | Float64Flag
  | StringSliceFlag
  | OtherFlag string

record flag =
  Names :: "string list"
  ftype :: flag_type

text \<open>
  \<^verbatim>\<open>*cli.Context\<close>: \<open>Flags\<close> is \<^verbatim>\<open>c.Command.Flags\<close>, \<open>Args\<close> is \<^verbatim>\<open>c.Args()\<close>, and the fields
  \<open>c_IsSet\<close>, \<open>c_Bool\<close>, ... are the accessors \<^verbatim>\<open>c.IsSet\<close>, \<^verbatim>\<open>c.Bool\<close>, ... Go's \<^verbatim>\<open>int\<close> is taken as 64 bits wide. Floating
  point is not modelled: \<open>c_Float64_f\<close> is \<^verbatim>\<open>fmt.Sprintf("%f", c.Float64(name))\<close>, the
  rendering of the value that \<^verbatim>\<open>buildFlagArgs\<close> uses.
\<close>

record ctx =
  Flags :: "flag list"
  Args :: "string list"
  c_IsSet :: "string \<Rightarrow> bool"
  c_Bool :: "string \<Rightarrow> bool"
  c_String :: "string \<Rightarrow> string"
  c_Int :: "string \<Rightarrow> 64 word"
  c_Int64 :: "string \<Rightarrow> 64 word"
  c_Float64_f :: "string \<Rightarrow> string"
  c_StringSlice :: "string \<Rightarrow> string list"

text \<open>\<^verbatim>\<open>c.Args().Get(n)\<close> is the empty string when there is no such argument.\<close>

definition Args_Get :: "ctx \<Rightarrow> nat \<Rightarrow> string" where
  "Args_Get c n = (if n < length (Args c) then Args c ! n else [])"

subsection \<open>The operating system\<close>

text \<open>
  What became of the child: it ran and exited with a status, it was ended by a signal,
  or it could not be run. \<^verbatim>\<open>cmd.Run()\<close> reports this as a Go error, as the documentation
  of \<^verbatim>\<open>os/exec\<close> has it: \<^verbatim>\<open>nil\<close> for exit status zero, an \<^verbatim>\<open>*exec.ExitError\<close> when the
  command started and did not complete successfully (its \<^verbatim>\<open>ExitCode()\<close> is the status
  of an exited process and \<open>-1\<close> for one ended by a signal), and another error otherwise.
\<close>

datatype child = Exited int | Signaled | NotRun string

datatype go_error = ExitError int | OtherError string

definition cmd_Run :: "child \<Rightarrow> go_error option" where
  "cmd_Run ch =
     (case ch of
        Exited n \<Rightarrow> (if n = 0 then None else Some (ExitError n))
      | Signaled \<Rightarrow> Some (ExitError (- 1))
      | NotRun e \<Rightarrow> Some (OtherError e))"

text \<open>
  \<open>os_Stat p\<close> says that \<^verbatim>\<open>os.Stat(p)\<close> returns no error; \<open>os_Executable\<close> is the result
  of \<^verbatim>\<open>os.Executable()\<close> (\<open>Inl\<close> the error); \<open>child_of exe args\<close> is what becomes of the
  child process started on \<open>exe\<close> with \<open>args\<close>. \<open>cmd_prepare c n\<close> is the call
  \<^verbatim>\<open>setup(c, n)\<close> of the package, which is defined in another file.
\<close>

record env =
  cmd_prepare :: "ctx \<Rightarrow> nat \<Rightarrow> unit outcome"
  os_Stat :: "string \<Rightarrow> bool"
  os_Executable :: "string + string"
  child_of :: "string \<Rightarrow> string list \<Rightarrow> child"

text \<open>\<^verbatim>\<open>filepath.IsAbs\<close> on Unix: the path begins with a slash.\<close>

definition IsAbs :: "string \<Rightarrow> bool" where
  "IsAbs path = (case path of [] \<Rightarrow> False | ch # rest \<Rightarrow> ch = CHR ''/'')"

subsection \<open>validateAbsolutePath\<close>

definition validateAbsolutePath :: "env \<Rightarrow> string \<Rightarrow> bool \<Rightarrow> unit io" where
  "validateAbsolutePath e path shouldExist =
     (if \<not> IsAbs path then ([], Fatalf (''path must be absolute: '' @ path))
      else
        let exists = os_Stat e path in
        if shouldExist \<and> \<not> exists then ([EvStat path], Fatalf (''path does not exist: '' @ path))
        else if \<not> shouldExist \<and> exists then
          ([EvStat path], Fatalf (''path already exists: '' @ path))
        else ([EvStat path], Return ()))"

subsection \<open>buildFlagArgs\<close>

text \<open>\<^verbatim>\<open>%d\<close> of a signed integer: decimal digits, with a minus sign when negative.\<close>

fun decimal :: "nat \<Rightarrow> string" where
  "decimal n =
     (if n < 10 then [''0123456789'' ! n]
      else decimal (n div 10) @ [''0123456789'' ! (n mod 10)])"

definition Sprintf_d :: "int \<Rightarrow> string" where
  "Sprintf_d i = (if i < 0 then ''-'' @ decimal (nat (- i)) else decimal (nat i))"

text \<open>
  One round of the loop over \<^verbatim>\<open>c.Command.Flags\<close>: the new value of \<^verbatim>\<open>args\<close>, or the end
  of the process. \<^verbatim>\<open>flag.Names()[0]\<close> panics when the flag has no name.
\<close>

definition buildFlagArgs_body :: "ctx \<Rightarrow> flag \<Rightarrow> string list \<Rightarrow> string list outcome" where
  "buildFlagArgs_body c fl args =
     (case Names fl of
        [] \<Rightarrow> Panic ''index out of range [0] with length 0''
      | flagName # aliases \<Rightarrow>
          if c_IsSet c flagName then
            (case ftype fl of
               BoolFlag \<Rightarrow>
                 if c_Bool c flagName then Return (args @ [''--'' @ flagName]) else Return args
             | StringFlag \<Rightarrow> Return (args @ [''--'' @ flagName @ ''='' @ c_String c flagName])
             | IntFlag \<Rightarrow>
                 Return (args @ [''--'' @ flagName @ ''='' @ Sprintf_d (sint (c_Int c flagName))])
             | Int64Flag \<Rightarrow>
                 Return (args @ [''--'' @ flagName @ ''='' @ Sprintf_d (sint (c_Int64 c flagName))])
             | Float64Flag \<Rightarrow> Return (args @ [''--'' @ flagName @ ''='' @ c_Float64_f c flagName])
             | StringSliceFlag \<Rightarrow>
                 Return (foldl (\<lambda>a v. a @ [''--'' @ flagName @ ''='' @ v]) args
                           (c_StringSlice c flagName))
             | OtherFlag ty \<Rightarrow>
                 Fatalf (''unsupported flag type for flag '' @ flagName @ '': '' @ ty))
          else Return args)"

fun buildFlagArgs_loop :: "ctx \<Rightarrow> flag list \<Rightarrow> string list \<Rightarrow> string list outcome" where
  "buildFlagArgs_loop c [] args = Return args"
| "buildFlagArgs_loop c (fl # rest) args =
     (case buildFlagArgs_body c fl args of
        Return args' \<Rightarrow> buildFlagArgs_loop c rest args'
      | Fatalf s \<Rightarrow> Fatalf s
      | Panic s \<Rightarrow> Panic s
      | Exit n \<Rightarrow> Exit n)"

definition buildFlagArgs :: "ctx \<Rightarrow> string list outcome" where
  "buildFlagArgs c = buildFlagArgs_loop c (Flags c) []"

subsection \<open>executeJuicefsCommand\<close>

text \<open>
  The relay goroutine runs beside the main flow and only sends signals to the child; the
  model records that it is started and follows the main flow. The value returned is the
  Go error of \<^verbatim>\<open>cmd.Run()\<close>.
\<close>

definition executeJuicefsCommand :: "env \<Rightarrow> string list \<Rightarrow> go_error option io" where
  "executeJuicefsCommand e args =
     (case os_Executable e of
        Inl err \<Rightarrow> ([], Fatalf (''failed to get current executable: '' @ err))
      | Inr executable \<Rightarrow>
          let t = [EvNotify, EvGoRelay, EvRun executable args, EvStop];
              err = cmd_Run (child_of e executable args)
          in (case err of
                Some (ExitError code) \<Rightarrow> (t, Exit code)
              | Some (OtherError m) \<Rightarrow> (t, Return err)
              | None \<Rightarrow> (t, Return err)))"

subsection \<open>metaDirWithoutQuery\<close>

text \<open>
  The loop \<^verbatim>\<open>for i, ch := range metaDir\<close>: \<open>i\<close> is the index of \<open>ch\<close> and the third
  argument is what is left to read. The question mark is one byte and no byte of a longer
  UTF-8 sequence equals it, so reading bytes finds the same index as reading runes.
\<close>

fun metaDirWithoutQuery_loop :: "string \<Rightarrow> nat \<Rightarrow> string \<Rightarrow> string" where
  "metaDirWithoutQuery_loop metaDir i [] = metaDir"
| "metaDirWithoutQuery_loop metaDir i (ch # rest) =
     (if ch = CHR ''?'' then take i metaDir
      else metaDirWithoutQuery_loop metaDir (Suc i) rest)"

definition metaDirWithoutQuery :: "string \<Rightarrow> string" where
  "metaDirWithoutQuery metaDir = metaDirWithoutQuery_loop metaDir 0 metaDir"

subsection \<open>The four subcommands\<close>

definition pantheonFormat :: "env \<Rightarrow> ctx \<Rightarrow> go_error option io" where
  "pantheonFormat e c =
     andThen (pure (cmd_prepare e c 2)) (\<lambda>u.
       let metaDir = Args_Get c 0; name = Args_Get c 1 in
       andThen (validateAbsolutePath e (metaDirWithoutQuery metaDir) False) (\<lambda>u.
         andThen (pure (buildFlagArgs c)) (\<lambda>flagArgs.
           executeJuicefsCommand e
             ([''format'', ''badger://'' @ metaDir, name, ''--trash-days=999''] @ flagArgs))))"

definition pantheonMount :: "env \<Rightarrow> ctx \<Rightarrow> go_error option io" where
  "pantheonMount e c =
     andThen (pure (cmd_prepare e c 2)) (\<lambda>u.
       let metaDir = Args_Get c 0; mountPoint = Args_Get c 1 in
       andThen (validateAbsolutePath e (metaDirWithoutQuery metaDir) True) (\<lambda>u.
         andThen (pure (buildFlagArgs c)) (\<lambda>flagArgs.
           executeJuicefsCommand e
             ([''mount'', ''badger://'' @ metaDir, mountPoint] @ flagArgs))))"

definition pantheonUmount :: "env \<Rightarrow> ctx \<Rightarrow> go_error option io" where
  "pantheonUmount e c =
     andThen (pure (cmd_prepare e c 1)) (\<lambda>u.
       let mountPoint = Args_Get c 0 in
       andThen (pure (buildFlagArgs c)) (\<lambda>flagArgs.
         executeJuicefsCommand e ([''umount'', mountPoint] @ flagArgs)))"

definition pantheonCheckpoint :: "env \<Rightarrow> ctx \<Rightarrow> go_error option io" where
  "pantheonCheckpoint e c =
     andThen (pure (cmd_prepare e c 2)) (\<lambda>u.
       let oldMetaDir = Args_Get c 0; newMetaDir = Args_Get c 1 in
       andThen (validateAbsolutePath e oldMetaDir True) (\<lambda>u.
         andThen (validateAbsolutePath e newMetaDir False) (\<lambda>u.
           executeJuicefsCommand e [''clone'', oldMetaDir, newMetaDir])))"

subsection \<open>Reading a trace\<close>

text \<open>The paths a run has probed with \<^verbatim>\<open>os.Stat\<close>, in order.\<close>

fun probed :: "event list \<Rightarrow> string list" where
  "probed [] = []"
| "probed (EvStat p # t) = p # probed t"
| "probed (ev # t) = probed t"

subsection \<open>The rendering table of the specification\<close>

text \<open>
  The tokens of one flag as the table of the flag reconstructor gives them: nothing for
  a flag that is not set; \<^verbatim>\<open>--name\<close> for a boolean that is true and nothing for one that
  is false; \<^verbatim>\<open>--name=value\<close> for a string, an integer and a floating point value; one
  \<^verbatim>\<open>--name=value\<close> for each element of a repeated string, in the order of the elements.
  The name is the first of the flag's names. (A flag without a name and a flag of another
  type have no tokens here; the code ends the process on them when they are set.)
\<close>

definition flag_tokens :: "ctx \<Rightarrow> flag \<Rightarrow> string list" where
  "flag_tokens c fl =
     (case Names fl of
        [] \<Rightarrow> []
      | name # aliases \<Rightarrow>
          if c_IsSet c name then
            (case ftype fl of
               BoolFlag \<Rightarrow> if c_Bool c name then [''--'' @ name] else []
             | StringFlag \<Rightarrow> [''--'' @ name @ ''='' @ c_String c name]
             | IntFlag \<Rightarrow> [''--'' @ name @ ''='' @ Sprintf_d (sint (c_Int c name))]
             | Int64Flag \<Rightarrow> [''--'' @ name @ ''='' @ Sprintf_d (sint (c_Int64 c name))]
             | Float64Flag \<Rightarrow> [''--'' @ name @ ''='' @ c_Float64_f c name]
             | StringSliceFlag \<Rightarrow> map (\<lambda>v. ''--'' @ name @ ''='' @ v) (c_StringSlice c name)
             | OtherFlag ty \<Rightarrow> [])
          else [])"

text \<open>
  Two command lines resolve a flag alike: under the flag's first name they agree on
  whether it is set and on its value at every type.
\<close>

definition same_resolved :: "ctx \<Rightarrow> ctx \<Rightarrow> flag \<Rightarrow> bool" where
  "same_resolved c c' fl =
     (case Names fl of
        [] \<Rightarrow> True
      | name # aliases \<Rightarrow>
          c_IsSet c' name = c_IsSet c name \<and> c_Bool c' name = c_Bool c name \<and>
          c_String c' name = c_String c name \<and> c_Int c' name = c_Int c name \<and>
          c_Int64 c' name = c_Int64 c name \<and> c_Float64_f c' name = c_Float64_f c name \<and>
          c_StringSlice c' name = c_StringSlice c name)"

subsection \<open>Concrete command lines and systems\<close>

text \<open>
  A schema with the flag types of the examples of the file (\<^verbatim>\<open>--storage\<close>, \<^verbatim>\<open>-d\<close>,
  \<^verbatim>\<open>-f\<close>) and the trash retention flag of \<^verbatim>\<open>format\<close>.
\<close>

definition demo_flags :: "flag list" where
  "demo_flags =
     [\<lparr>Names = [''trash-days''], ftype = IntFlag\<rparr>,
      \<lparr>Names = [''force'', ''f''], ftype = BoolFlag\<rparr>,
      \<lparr>Names = [''storage''], ftype = StringFlag\<rparr>,
      \<lparr>Names = [''subdir''], ftype = StringSliceFlag\<rparr>,
      \<lparr>Names = [''d'', ''background''], ftype = BoolFlag\<rparr>]"

text \<open>
  \<^verbatim>\<open>/data/myfs?x=1 myfs --trash-days=5 --force=false --storage= --subdir=a --subdir=b -d\<close>
\<close>

definition demo_ctx :: ctx where
  "demo_ctx =
     \<lparr>Flags = demo_flags,
      Args = [''/data/myfs?x=1'', ''myfs''],
      c_IsSet = (\<lambda>n. n \<in> set [''trash-days'', ''force'', ''storage'', ''subdir'', ''d'']),
      c_Bool = (\<lambda>n. n = ''d''),
      c_String = (\<lambda>n. []),
      c_Int = (\<lambda>n. if n = ''trash-days'' then 5 else 0),
      c_Int64 = (\<lambda>n. 0),
      c_Float64_f = (\<lambda>n. ''0.000000''),
      c_StringSlice = (\<lambda>n. if n = ''subdir'' then [''a'', ''b''] else [])\<rparr>"

text \<open>
  A system where \<^verbatim>\<open>/data/old\<close> and the relative \<^verbatim>\<open>data\<close> exist and nothing else does,
  \<^verbatim>\<open>setup\<close> only counts the arguments, and every child exits with status 3.
\<close>

definition demo_env :: env where
  "demo_env =
     \<lparr>cmd_prepare = (\<lambda>c n. if length (Args c) < n then Exit 1 else Return ()),
      os_Stat = (\<lambda>p. p = ''/data/old'' \<or> p = ''data''),
      os_Executable = Inr ''/usr/bin/juicefs'',
      child_of = (\<lambda>exe args. Exited 3)\<rparr>"

text \<open>
  The first scenario of the specification, \<^verbatim>\<open>format /data/myfs myfs --trash-days=5\<close>; a
  mount of a location with a query suffix whose directory exists; and a checkpoint (the
  subcommand declares no flags) whose old location carries a query suffix.
\<close>

definition scenario1_ctx :: ctx where
  "scenario1_ctx =
     demo_ctx\<lparr>Args := [''/data/myfs'', ''myfs''], c_IsSet := (\<lambda>n. n = ''trash-days'')\<rparr>"

definition mount_ctx :: ctx where
  "mount_ctx = demo_ctx\<lparr>Args := [''/data/old?x=1'', ''/mnt/jfs'']\<rparr>"

definition checkpoint_ctx :: ctx where
  "checkpoint_ctx =
     demo_ctx\<lparr>Flags := [], Args := [''/data/old?x=1'', ''/data/new''], c_IsSet := (\<lambda>n. False)\<rparr>"

section \<open>Flag reconstruction\<close>

lemma foldl_snoc_map: "foldl (\<lambda>a v. a @ [f v]) args vs = args @ map f vs"
  by (induction vs arbitrary: args) simp_all

lemma body_Return:
  "buildFlagArgs_body c fl args = Return r \<Longrightarrow> r = args @ flag_tokens c fl"
  by (auto simp: buildFlagArgs_body_def flag_tokens_def foldl_snoc_map
      split: list.splits if_splits flag_type.splits)

lemma body_acc:
  "buildFlagArgs_body c fl args = map_outcome (\<lambda>r. args @ r) (buildFlagArgs_body c fl [])"
  by (simp add: buildFlagArgs_body_def foldl_snoc_map split: list.splits flag_type.splits)

lemma loop_acc:
  "buildFlagArgs_loop c fls args = map_outcome (\<lambda>r. args @ r) (buildFlagArgs_loop c fls [])"
proof (induction fls arbitrary: args)
  case Nil
  show ?case by simp
next
  case (Cons fl fls)
  show ?case
  proof (cases "buildFlagArgs_body c fl []")
    case (Return r)
    then have "buildFlagArgs_body c fl args = Return (args @ r)"
      using body_acc [of c fl args] by simp
    then show ?thesis
      using Return Cons.IH [of "args @ r"] Cons.IH [of r]
      by (simp add: outcome.map_comp comp_def)
  qed (use body_acc [of c fl args] in simp_all)
qed

lemma loop_append:
  "buildFlagArgs_loop c (xs @ ys) args =
     (case buildFlagArgs_loop c xs args of
        Return a \<Rightarrow> buildFlagArgs_loop c ys a
      | Fatalf s \<Rightarrow> Fatalf s
      | Panic s \<Rightarrow> Panic s
      | Exit n \<Rightarrow> Exit n)"
  by (induction xs arbitrary: args) (simp_all split: outcome.splits)

lemma loop_Return:
  "buildFlagArgs_loop c fls args = Return r \<Longrightarrow> r = args @ concat (map (flag_tokens c) fls)"
proof (induction fls arbitrary: args)
  case Nil
  then show ?case by simp
next
  case (Cons fl fls)
  from Cons.prems obtain a where a: "buildFlagArgs_body c fl args = Return a"
    and r: "buildFlagArgs_loop c fls a = Return r"
    by (auto split: outcome.splits)
  have "a = args @ flag_tokens c fl" using a by (rule body_Return)
  moreover have "r = a @ concat (map (flag_tokens c) fls)" using r by (rule Cons.IH)
  ultimately show ?case by simp
qed

text \<open>The flags before a flag, the flag, and the flags after it each add their tokens.\<close>

lemma loop_split:
  assumes "buildFlagArgs_loop c pre [] = Return A"
    and "buildFlagArgs_body c fl [] = Return T"
    and "buildFlagArgs_loop c post [] = Return B"
  shows "buildFlagArgs_loop c (pre @ [fl] @ post) [] = Return (A @ T @ B)"
proof -
  have 1: "buildFlagArgs_body c fl A = Return (A @ T)"
    using assms(2) body_acc [of c fl A] by simp
  have 2: "buildFlagArgs_loop c post (A @ T) = Return ((A @ T) @ B)"
    using assms(3) loop_acc [of c post "A @ T"] by simp
  show ?thesis
    using assms(1) 1 2 by (simp add: loop_append)
qed

text \<open>The loop reads the schema it is given, not the one of the command line.\<close>

lemma loop_cong:
  "buildFlagArgs_loop (c\<lparr>Flags := x\<rparr>) fls args = buildFlagArgs_loop c fls args"
proof (induction fls arbitrary: args)
  case Nil
  show ?case by simp
next
  case (Cons fl fls)
  have "buildFlagArgs_body (c\<lparr>Flags := x\<rparr>) fl args = buildFlagArgs_body c fl args"
    by (simp add: buildFlagArgs_body_def split: list.splits flag_type.splits)
  then show ?case using Cons.IH by (simp split: outcome.splits)
qed

lemma buildFlagArgs_sub: "buildFlagArgs (c\<lparr>Flags := x\<rparr>) = buildFlagArgs_loop c x []"
  by (simp add: buildFlagArgs_def loop_cong)

text \<open>The definitions that evaluate \<^verbatim>\<open>buildFlagArgs\<close> on the concrete command line.\<close>

lemmas demo_simps = demo_ctx_def demo_flags_def buildFlagArgs_def buildFlagArgs_body_def
  Sprintf_d_def

text \<open>
  Claim C5. When \<^verbatim>\<open>buildFlagArgs\<close> returns, its tokens are the tokens of the flags of the
  schema, flag after flag in the order the schema declares them. What it returns depends
  on the command line only through the schema and through what each flag of the schema
  resolves to: two command lines with the same schema that resolve every flag alike,
  however and in whatever order the caller set them, give the same result, token for
  token.
\<close>

theorem buildFlagArgs_schema_order:
  "(buildFlagArgs c = Return out \<longrightarrow> out = concat (map (flag_tokens c) (Flags c))) \<and>
   (Flags c' = Flags c \<and> (\<forall>fl \<in> set (Flags c). same_resolved c c' fl) \<longrightarrow>
      buildFlagArgs c' = buildFlagArgs c)"
proof (intro conjI impI)
  assume "buildFlagArgs c = Return out"
  then show "out = concat (map (flag_tokens c) (Flags c))"
    unfolding buildFlagArgs_def by (auto dest: loop_Return)
next
  assume a: "Flags c' = Flags c \<and> (\<forall>fl \<in> set (Flags c). same_resolved c c' fl)"
  have body: "buildFlagArgs_body c' fl args = buildFlagArgs_body c fl args"
    if "same_resolved c c' fl" for fl args
    using that
    by (auto simp: same_resolved_def buildFlagArgs_body_def split: list.splits flag_type.splits)
  have "buildFlagArgs_loop c' fls args = buildFlagArgs_loop c fls args"
    if "\<forall>fl \<in> set fls. same_resolved c c' fl" for fls args
    using that
  proof (induction fls arbitrary: args)
    case Nil
    show ?case by simp
  next
    case (Cons fl fls)
    then show ?case by (simp add: body split: outcome.splits)
  qed
  then show "buildFlagArgs c' = buildFlagArgs c"
    using a by (simp add: buildFlagArgs_def)
qed

text \<open>
  On the concrete command line the tokens come in schema order, and a command line with
  other positional arguments and another value for a flag outside the schema gives the
  same tokens.
\<close>

theorem buildFlagArgs_schema_order_witness:
  "buildFlagArgs demo_ctx =
     Return [''--trash-days=5'', ''--storage='', ''--subdir=a'', ''--subdir=b'', ''--d''] \<and>
   concat (map (flag_tokens demo_ctx) (Flags demo_ctx)) =
     [''--trash-days=5'', ''--storage='', ''--subdir=a'', ''--subdir=b'', ''--d''] \<and>
   buildFlagArgs (demo_ctx\<lparr>Args := [''/mnt/jfs''], c_String := (\<lambda>n. if n = ''bucket'' then ''b'' else [])\<rparr>) =
     buildFlagArgs demo_ctx"
proof -
  let ?c' = "demo_ctx\<lparr>Args := [''/mnt/jfs''], c_String := (\<lambda>n. if n = ''bucket'' then ''b'' else [])\<rparr>"
  have r: "buildFlagArgs demo_ctx =
     Return [''--trash-days=5'', ''--storage='', ''--subdir=a'', ''--subdir=b'', ''--d'']"
    by (simp add: demo_simps)
  have s: "Flags ?c' = Flags demo_ctx \<and> (\<forall>fl \<in> set (Flags demo_ctx). same_resolved demo_ctx ?c' fl)"
    by (simp add: demo_ctx_def demo_flags_def same_resolved_def)
  show ?thesis
    using buildFlagArgs_schema_order [of demo_ctx
        "[''--trash-days=5'', ''--storage='', ''--subdir=a'', ''--subdir=b'', ''--d'']" ?c'] r s
    by simp
qed

text \<open>
  Claim C6. A boolean flag of the schema that is set adds no token when its value is
  false, and the bare token \<^verbatim>\<open>--name\<close> when its value is true: the result is the tokens
  \<open>A\<close> of the flags before it, then nothing or \<^verbatim>\<open>--name\<close>, then the tokens \<open>B\<close> of the
  flags after it.
\<close>

theorem bool_flag_tokens:
  assumes "Flags c = pre @ [fl] @ post"
    and "Names fl = name # aliases" and "ftype fl = BoolFlag" and "c_IsSet c name"
    and "buildFlagArgs (c\<lparr>Flags := pre\<rparr>) = Return A"
    and "buildFlagArgs (c\<lparr>Flags := post\<rparr>) = Return B"
  shows "buildFlagArgs c = Return (A @ (if c_Bool c name then [''--'' @ name] else []) @ B)"
proof -
  have body: "buildFlagArgs_body c fl [] = Return (if c_Bool c name then [''--'' @ name] else [])"
    using assms(2-4) by (simp add: buildFlagArgs_body_def)
  have "buildFlagArgs_loop c (pre @ [fl] @ post) [] =
      Return (A @ (if c_Bool c name then [''--'' @ name] else []) @ B)"
    using assms(5,6) body unfolding buildFlagArgs_sub by (intro loop_split)
  then show ?thesis
    using assms(1) by (simp add: buildFlagArgs_def)
qed

text \<open>On the concrete command line \<^verbatim>\<open>force\<close> is set and false, \<^verbatim>\<open>d\<close> is set and true.\<close>

theorem bool_flag_tokens_witness:
  "c_IsSet demo_ctx ''force'' \<and> \<not> c_Bool demo_ctx ''force'' \<and>
   buildFlagArgs demo_ctx =
     Return ([''--trash-days=5''] @ [] @ [''--storage='', ''--subdir=a'', ''--subdir=b'', ''--d'']) \<and>
   c_IsSet demo_ctx ''d'' \<and> c_Bool demo_ctx ''d'' \<and>
   buildFlagArgs demo_ctx =
     Return ([''--trash-days=5'', ''--storage='', ''--subdir=a'', ''--subdir=b''] @ [''--d''] @ [])"
proof -
  have 1: "buildFlagArgs demo_ctx =
     Return ([''--trash-days=5''] @ (if c_Bool demo_ctx ''force'' then [''--'' @ ''force''] else []) @
       [''--storage='', ''--subdir=a'', ''--subdir=b'', ''--d''])"
    by (rule bool_flag_tokens [where pre = "take 1 demo_flags" and post = "drop 2 demo_flags"
          and fl = "demo_flags ! 1" and aliases = "[''f'']"])
      (simp_all add: demo_simps)
  have 2: "buildFlagArgs demo_ctx =
     Return ([''--trash-days=5'', ''--storage='', ''--subdir=a'', ''--subdir=b''] @
       (if c_Bool demo_ctx ''d'' then [''--'' @ ''d''] else []) @ [])"
    by (rule bool_flag_tokens [where pre = "take 4 demo_flags" and post = "[]"
          and fl = "demo_flags ! 4" and aliases = "[''background'']"])
      (simp_all add: demo_simps)
  have 3: "c_IsSet demo_ctx ''force'' \<and> \<not> c_Bool demo_ctx ''force'' \<and>
      c_IsSet demo_ctx ''d'' \<and> c_Bool demo_ctx ''d''"
    by (simp add: demo_ctx_def)
  show ?thesis using 1 2 3 by simp
qed

text \<open>
  Claim C7. A repeated string flag that is set with the values \<open>vs\<close> adds one token
  \<^verbatim>\<open>--name=v\<close> for each \<open>v\<close> of \<open>vs\<close>, as many tokens as values, in the order of \<open>vs\<close>,
  between the tokens of the flags before it and those of the flags after it.
\<close>

theorem string_slice_flag_tokens:
  assumes "Flags c = pre @ [fl] @ post"
    and "Names fl = name # aliases" and "ftype fl = StringSliceFlag" and "c_IsSet c name"
    and "buildFlagArgs (c\<lparr>Flags := pre\<rparr>) = Return A"
    and "buildFlagArgs (c\<lparr>Flags := post\<rparr>) = Return B"
  shows "buildFlagArgs c =
           Return (A @ map (\<lambda>v. ''--'' @ name @ ''='' @ v) (c_StringSlice c name) @ B)"
proof -
  have body: "buildFlagArgs_body c fl [] =
      Return (map (\<lambda>v. ''--'' @ name @ ''='' @ v) (c_StringSlice c name))"
    using assms(2-4) by (simp add: buildFlagArgs_body_def foldl_snoc_map)
  have "buildFlagArgs_loop c (pre @ [fl] @ post) [] =
      Return (A @ map (\<lambda>v. ''--'' @ name @ ''='' @ v) (c_StringSlice c name) @ B)"
    using assms(5,6) body unfolding buildFlagArgs_sub by (intro loop_split)
  then show ?thesis
    using assms(1) by (simp add: buildFlagArgs_def)
qed

theorem string_slice_flag_tokens_witness:
  "c_IsSet demo_ctx ''subdir'' \<and> c_StringSlice demo_ctx ''subdir'' = [''a'', ''b''] \<and>
   buildFlagArgs demo_ctx =
     Return ([''--trash-days=5'', ''--storage=''] @ [''--subdir=a'', ''--subdir=b''] @ [''--d''])"
proof -
  have 1: "buildFlagArgs demo_ctx =
     Return ([''--trash-days=5'', ''--storage=''] @
       map (\<lambda>v. ''--'' @ ''subdir'' @ ''='' @ v) (c_StringSlice demo_ctx ''subdir'') @ [''--d''])"
    by (rule string_slice_flag_tokens [where pre = "take 3 demo_flags" and post = "drop 4 demo_flags"
          and fl = "demo_flags ! 3" and aliases = "[]"])
      (simp_all add: demo_simps)
  have 2: "c_IsSet demo_ctx ''subdir'' \<and> c_StringSlice demo_ctx ''subdir'' = [''a'', ''b'']"
    by (simp add: demo_ctx_def)
  show ?thesis using 1 2 by simp
qed

text \<open>
  Claim C10. A string flag that is set adds the token \<^verbatim>\<open>--name=value\<close> whatever the
  value is; for the empty string the token is \<^verbatim>\<open>--name=\<close>.
\<close>

theorem string_flag_tokens:
  assumes "Flags c = pre @ [fl] @ post"
    and "Names fl = name # aliases" and "ftype fl = StringFlag" and "c_IsSet c name"
    and "buildFlagArgs (c\<lparr>Flags := pre\<rparr>) = Return A"
    and "buildFlagArgs (c\<lparr>Flags := post\<rparr>) = Return B"
  shows "buildFlagArgs c = Return (A @ [''--'' @ name @ ''='' @ c_String c name] @ B) \<and>
         (c_String c name = [] \<longrightarrow> buildFlagArgs c = Return (A @ [''--'' @ name @ ''=''] @ B))"
proof -
  have body: "buildFlagArgs_body c fl [] = Return [''--'' @ name @ ''='' @ c_String c name]"
    using assms(2-4) by (simp add: buildFlagArgs_body_def)
  have "buildFlagArgs_loop c (pre @ [fl] @ post) [] =
      Return (A @ [''--'' @ name @ ''='' @ c_String c name] @ B)"
    using assms(5,6) body unfolding buildFlagArgs_sub by (intro loop_split)
  then show ?thesis
    using assms(1) by (auto simp: buildFlagArgs_def)
qed

theorem string_flag_tokens_witness:
  "c_IsSet demo_ctx ''storage'' \<and> c_String demo_ctx ''storage'' = [] \<and>
   buildFlagArgs demo_ctx =
     Return ([''--trash-days=5''] @ [''--storage=''] @ [''--subdir=a'', ''--subdir=b'', ''--d''])"
proof -
  have 0: "c_IsSet demo_ctx ''storage'' \<and> c_String demo_ctx ''storage'' = []"
    by (simp add: demo_ctx_def)
  have "buildFlagArgs demo_ctx =
       Return ([''--trash-days=5''] @ [''--'' @ ''storage'' @ ''='' @ c_String demo_ctx ''storage''] @
         [''--subdir=a'', ''--subdir=b'', ''--d'']) \<and>
     (c_String demo_ctx ''storage'' = [] \<longrightarrow>
       buildFlagArgs demo_ctx =
         Return ([''--trash-days=5''] @ [''--'' @ ''storage'' @ ''=''] @
           [''--subdir=a'', ''--subdir=b'', ''--d'']))"
    by (rule string_flag_tokens [where pre = "take 2 demo_flags" and post = "drop 3 demo_flags"
          and fl = "demo_flags ! 2" and aliases = "[]"])
      (simp_all add: demo_simps)
  then show ?thesis using 0 by simp
qed


section \<open>Path validation\<close>

text \<open>The loop returns what stands before the first question mark.\<close>

lemma metaDirWithoutQuery_loop_inv:
  "metaDirWithoutQuery_loop (pre @ rest) (length pre) rest =
     pre @ takeWhile (\<lambda>ch. ch \<noteq> CHR ''?'') rest"
proof (induction rest arbitrary: pre)
  case Nil
  show ?case by simp
next
  case (Cons ch rest)
  show ?case
  proof (cases "ch = CHR ''?''")
    case True
    then show ?thesis by simp
  next
    case False
    then show ?thesis using Cons.IH [of "pre @ [ch]"] by simp
  qed
qed

lemma metaDirWithoutQuery_takeWhile:
  "metaDirWithoutQuery metaDir = takeWhile (\<lambda>ch. ch \<noteq> CHR ''?'') metaDir"
  using metaDirWithoutQuery_loop_inv [of "[]" metaDir] by (simp add: metaDirWithoutQuery_def)

text \<open>
  Claim C4. The validator fails when it ends the process. The three parts of the claim
  are read together: for a path that is absolute, \<^verbatim>\<open>validateAbsolutePath(p, true)\<close> fails
  if and only if \<open>p\<close> does not exist and \<^verbatim>\<open>validateAbsolutePath(p, false)\<close> fails if and
  only if \<open>p\<close> exists; for a path that is not absolute both fail, whether it exists or
  not.
\<close>

theorem validateAbsolutePath_fails:
  "(IsAbs p \<longrightarrow>
      (halts (validateAbsolutePath e p True) \<longleftrightarrow> \<not> os_Stat e p) \<and>
      (halts (validateAbsolutePath e p False) \<longleftrightarrow> os_Stat e p)) \<and>
   (\<not> IsAbs p \<longrightarrow>
      halts (validateAbsolutePath e p True) \<and> halts (validateAbsolutePath e p False))"
  by (simp add: validateAbsolutePath_def halts_def Let_def)

theorem validateAbsolutePath_fails_witness:
  "IsAbs ''/data/old'' \<and> os_Stat demo_env ''/data/old'' \<and>
   \<not> halts (validateAbsolutePath demo_env ''/data/old'' True) \<and>
   halts (validateAbsolutePath demo_env ''/data/old'' False) \<and>
   IsAbs ''/data/new'' \<and> \<not> os_Stat demo_env ''/data/new'' \<and>
   halts (validateAbsolutePath demo_env ''/data/new'' True) \<and>
   \<not> halts (validateAbsolutePath demo_env ''/data/new'' False) \<and>
   \<not> IsAbs ''data'' \<and> os_Stat demo_env ''data'' \<and>
   halts (validateAbsolutePath demo_env ''data'' True) \<and>
   halts (validateAbsolutePath demo_env ''data'' False)"
proof -
  have 1: "IsAbs ''/data/old'' \<and> os_Stat demo_env ''/data/old'' \<and>
      IsAbs ''/data/new'' \<and> \<not> os_Stat demo_env ''/data/new'' \<and>
      \<not> IsAbs ''data'' \<and> os_Stat demo_env ''data''"
    by (simp add: IsAbs_def demo_env_def)
  show ?thesis
    using 1 validateAbsolutePath_fails [of "''/data/old''" demo_env]
      validateAbsolutePath_fails [of "''/data/new''" demo_env]
      validateAbsolutePath_fails [of "''data''" demo_env]
    by simp
qed

section \<open>The subprocess runner\<close>

text \<open>
  Claim C3. When the child that \<^verbatim>\<open>executeJuicefsCommand\<close> has started exits with a status
  \<open>n\<close> other than zero, the call ends the process with \<^verbatim>\<open>os.Exit(n)\<close>, the same \<open>n\<close>; when
  the child exits with status zero the call returns \<^verbatim>\<open>nil\<close> and ends nothing.
\<close>

theorem executeJuicefsCommand_exit_code:
  assumes "os_Executable e = Inr exe" and "child_of e exe args = Exited n"
  shows "(n \<noteq> 0 \<longrightarrow> snd (executeJuicefsCommand e args) = Exit n) \<and>
         (n = 0 \<longrightarrow> snd (executeJuicefsCommand e args) = Return None)"
  using assms by (simp add: executeJuicefsCommand_def cmd_Run_def)

theorem executeJuicefsCommand_exit_code_witness:
  "os_Executable demo_env = Inr ''/usr/bin/juicefs'' \<and>
   child_of demo_env ''/usr/bin/juicefs'' [''umount'', ''/mnt/jfs''] = Exited 3 \<and>
   snd (executeJuicefsCommand demo_env [''umount'', ''/mnt/jfs'']) = Exit 3 \<and>
   child_of (demo_env\<lparr>child_of := \<lambda>exe args. Exited 0\<rparr>) ''/usr/bin/juicefs''
     [''umount'', ''/mnt/jfs''] = Exited 0 \<and>
   snd (executeJuicefsCommand (demo_env\<lparr>child_of := \<lambda>exe args. Exited 0\<rparr>)
     [''umount'', ''/mnt/jfs'']) = Return None"
proof -
  let ?e0 = "demo_env\<lparr>child_of := \<lambda>exe args. Exited 0\<rparr>"
  have 1: "os_Executable demo_env = Inr ''/usr/bin/juicefs''"
    and 2: "child_of demo_env ''/usr/bin/juicefs'' [''umount'', ''/mnt/jfs''] = Exited 3"
    and 3: "os_Executable ?e0 = Inr ''/usr/bin/juicefs''"
    and 4: "child_of ?e0 ''/usr/bin/juicefs'' [''umount'', ''/mnt/jfs''] = Exited 0"
    by (simp_all add: demo_env_def)
  show ?thesis
    using 1 2 4 executeJuicefsCommand_exit_code [OF 1 2] executeJuicefsCommand_exit_code [OF 3 4]
    by simp
qed

text \<open>
  Claim C9. Once the executable is resolved, the effects of the runner are the
  subscription, the start of the relay, \<^verbatim>\<open>cmd.Run()\<close> and then at once
  \<^verbatim>\<open>signal.Stop(c)\<close>, the same on every path: when the wait succeeds (the call returns
  \<^verbatim>\<open>nil\<close>), when it fails (the call returns the error), and when the child exits with
  another status than zero (the process ends with \<^verbatim>\<open>os.Exit\<close> only after the four
  effects). When \<^verbatim>\<open>os.Executable()\<close> fails nothing was subscribed.
\<close>

theorem executeJuicefsCommand_stops_signals:
  assumes "os_Executable e = Inr exe"
  shows "fst (executeJuicefsCommand e args) = [EvNotify, EvGoRelay, EvRun exe args, EvStop] \<and>
         snd (executeJuicefsCommand e args) =
           (case cmd_Run (child_of e exe args) of
              None \<Rightarrow> Return None
            | Some (ExitError code) \<Rightarrow> Exit code
            | Some (OtherError m) \<Rightarrow> Return (Some (OtherError m)))"
  using assms
  by (simp add: executeJuicefsCommand_def Let_def split: option.splits go_error.splits)

theorem executeJuicefsCommand_stops_signals_witness:
  "executeJuicefsCommand (demo_env\<lparr>child_of := \<lambda>exe args. Exited 0\<rparr>) [''umount'', ''/mnt/jfs''] =
     ([EvNotify, EvGoRelay, EvRun ''/usr/bin/juicefs'' [''umount'', ''/mnt/jfs''], EvStop],
      Return None) \<and>
   executeJuicefsCommand (demo_env\<lparr>child_of := \<lambda>exe args. NotRun ''exec format error''\<rparr>)
       [''umount'', ''/mnt/jfs''] =
     ([EvNotify, EvGoRelay, EvRun ''/usr/bin/juicefs'' [''umount'', ''/mnt/jfs''], EvStop],
      Return (Some (OtherError ''exec format error''))) \<and>
   executeJuicefsCommand demo_env [''umount'', ''/mnt/jfs''] =
     ([EvNotify, EvGoRelay, EvRun ''/usr/bin/juicefs'' [''umount'', ''/mnt/jfs''], EvStop],
      Exit 3)"
proof -
  let ?e0 = "demo_env\<lparr>child_of := \<lambda>exe args. Exited 0\<rparr>"
  let ?e1 = "demo_env\<lparr>child_of := \<lambda>exe args. NotRun ''exec format error''\<rparr>"
  have 0: "os_Executable ?e0 = Inr ''/usr/bin/juicefs''"
    and 1: "os_Executable ?e1 = Inr ''/usr/bin/juicefs''"
    and 2: "os_Executable demo_env = Inr ''/usr/bin/juicefs''"
    by (simp_all add: demo_env_def)
  have c: "child_of ?e0 = (\<lambda>exe args. Exited 0)"
    "child_of ?e1 = (\<lambda>exe args. NotRun ''exec format error'')"
    "child_of demo_env = (\<lambda>exe args. Exited 3)"
    by (simp_all add: demo_env_def)
  show ?thesis
    using executeJuicefsCommand_stops_signals [OF 0, of "[''umount'', ''/mnt/jfs'']"]
      executeJuicefsCommand_stops_signals [OF 1, of "[''umount'', ''/mnt/jfs'']"]
      executeJuicefsCommand_stops_signals [OF 2, of "[''umount'', ''/mnt/jfs'']"]
    by (simp add: c cmd_Run_def prod_eq_iff)
qed

section \<open>The subcommands\<close>

lemma probed_append: "probed (t @ u) = probed t @ probed u"
  by (induction t rule: probed.induct) simp_all

lemma executeJuicefsCommand_probed: "probed (fst (executeJuicefsCommand e args)) = []"
  by (simp add: executeJuicefsCommand_def Let_def split: sum.splits option.splits go_error.splits)

lemma andThen_pure_Return: "andThen (pure (Return x)) f = f x"
  by (simp add: andThen_def pure_def split: prod.splits)

lemma andThen_Return: "andThen (t, Return x) f = (t @ fst (f x), snd (f x))"
  by (simp add: andThen_def split: prod.splits)

lemma andThen_Fatalf: "andThen (t, Fatalf s) f = (t, Fatalf s)"
  by (simp add: andThen_def)

lemma andThen_flags_probed:
  "probed (fst (andThen (pure (buildFlagArgs c)) (\<lambda>fl. executeJuicefsCommand e (g fl)))) = []"
  by (cases "buildFlagArgs c")
    (simp_all add: andThen_def pure_def executeJuicefsCommand_probed split: prod.splits)

lemma pantheonFormat_run:
  assumes "EvRun exe args \<in> set (fst (pantheonFormat e c))"
  shows "\<exists>fl. buildFlagArgs c = Return fl \<and>
           args = [''format'', ''badger://'' @ Args_Get c 0, Args_Get c 1, ''--trash-days=999''] @ fl"
  using assms
  by (auto simp: pantheonFormat_def andThen_def pure_def validateAbsolutePath_def Let_def
      executeJuicefsCommand_def
      split: outcome.splits if_splits prod.splits sum.splits option.splits go_error.splits)

lemma pantheonMount_run:
  assumes "EvRun exe args \<in> set (fst (pantheonMount e c))"
  shows "\<exists>fl. buildFlagArgs c = Return fl \<and>
           args = [''mount'', ''badger://'' @ Args_Get c 0, Args_Get c 1] @ fl"
  using assms
  by (auto simp: pantheonMount_def andThen_def pure_def validateAbsolutePath_def Let_def
      executeJuicefsCommand_def
      split: outcome.splits if_splits prod.splits sum.splits option.splits go_error.splits)

lemmas run_simps = pantheonFormat_def pantheonMount_def pantheonCheckpoint_def andThen_def
  pure_def validateAbsolutePath_def IsAbs_def Args_Get_def metaDirWithoutQuery_def
  executeJuicefsCommand_def cmd_Run_def demo_env_def Let_def

text \<open>
  Claim C1, as amended. On every run of \<^verbatim>\<open>format\<close> that starts the child, the argument
  list begins with \<^verbatim>\<open>format\<close>, the prefixed meta location, the volume name and the token
  \<^verbatim>\<open>--trash-days=999\<close>, and all that follows the fourth token is what \<^verbatim>\<open>buildFlagArgs\<close>
  returns for the caller's flags, unfiltered: the forced token stands before every token
  of the caller, and a \<^verbatim>\<open>--trash-days\<close> token of the caller, when the schema declares the
  flag and the caller sets it, stands behind it in the same list.
\<close>

theorem pantheonFormat_trash_days:
  assumes "EvRun exe args \<in> set (fst (pantheonFormat e c))"
  shows "take 4 args =
           [''format'', ''badger://'' @ Args_Get c 0, Args_Get c 1, ''--trash-days=999''] \<and>
         buildFlagArgs c = Return (drop 4 args)"
  using pantheonFormat_run [OF assms] by auto

theorem pantheonFormat_trash_days_witness:
  "EvRun ''/usr/bin/juicefs''
      [''format'', ''badger:///data/myfs'', ''myfs'', ''--trash-days=999'', ''--trash-days=5'']
     \<in> set (fst (pantheonFormat demo_env scenario1_ctx)) \<and>
   buildFlagArgs scenario1_ctx = Return [''--trash-days=5'']"
proof -
  have 1: "EvRun ''/usr/bin/juicefs''
      [''format'', ''badger:///data/myfs'', ''myfs'', ''--trash-days=999'', ''--trash-days=5'']
     \<in> set (fst (pantheonFormat demo_env scenario1_ctx))"
    by (simp add: run_simps scenario1_ctx_def demo_simps)
  show ?thesis
    using 1 pantheonFormat_trash_days [OF 1] by simp
qed

text \<open>
  Claim C1 as stated fails: in the first scenario of the specification the child gets
  both \<^verbatim>\<open>--trash-days=999\<close> and the caller's \<^verbatim>\<open>--trash-days=5\<close>.
\<close>

theorem pantheonFormat_trash_days_twice:
  "pantheonFormat demo_env scenario1_ctx =
     ([EvStat ''/data/myfs'', EvNotify, EvGoRelay,
       EvRun ''/usr/bin/juicefs''
         [''format'', ''badger:///data/myfs'', ''myfs'', ''--trash-days=999'', ''--trash-days=5''],
       EvStop],
      Exit 3)"
  by (simp add: run_simps scenario1_ctx_def demo_simps)

text \<open>
  Claim C8. On every run of \<^verbatim>\<open>format\<close> and of \<^verbatim>\<open>mount\<close> that starts the child, the
  second token of the argument list is \<^verbatim>\<open>badger://\<close> followed by the meta location as the
  caller gave it, with whatever follows a question mark in it.
\<close>

theorem meta_location_token:
  "(EvRun exe args \<in> set (fst (pantheonFormat e c)) \<longrightarrow>
      args ! 1 = ''badger://'' @ Args_Get c 0) \<and>
   (EvRun exe args \<in> set (fst (pantheonMount e c)) \<longrightarrow>
      args ! 1 = ''badger://'' @ Args_Get c 0)"
  by (auto dest!: pantheonFormat_run pantheonMount_run)

theorem meta_location_token_witness:
  "EvRun ''/usr/bin/juicefs''
      [''format'', ''badger:///data/myfs?x=1'', ''myfs'', ''--trash-days=999'', ''--trash-days=5'',
       ''--storage='', ''--subdir=a'', ''--subdir=b'', ''--d'']
     \<in> set (fst (pantheonFormat demo_env demo_ctx)) \<and>
   Args_Get demo_ctx 0 = ''/data/myfs?x=1'' \<and>
   EvRun ''/usr/bin/juicefs''
      [''mount'', ''badger:///data/old?x=1'', ''/mnt/jfs'', ''--trash-days=5'',
       ''--storage='', ''--subdir=a'', ''--subdir=b'', ''--d'']
     \<in> set (fst (pantheonMount demo_env mount_ctx)) \<and>
   Args_Get mount_ctx 0 = ''/data/old?x=1''"
proof -
  let ?fa = "[''format'', ''badger:///data/myfs?x=1'', ''myfs'', ''--trash-days=999'',
       ''--trash-days=5'', ''--storage='', ''--subdir=a'', ''--subdir=b'', ''--d'']"
  let ?ma = "[''mount'', ''badger:///data/old?x=1'', ''/mnt/jfs'', ''--trash-days=5'',
       ''--storage='', ''--subdir=a'', ''--subdir=b'', ''--d'']"
  have 1: "EvRun ''/usr/bin/juicefs'' ?fa \<in> set (fst (pantheonFormat demo_env demo_ctx))"
    by (simp add: run_simps demo_simps)
  have 2: "EvRun ''/usr/bin/juicefs'' ?ma \<in> set (fst (pantheonMount demo_env mount_ctx))"
    by (simp add: run_simps mount_ctx_def demo_simps)
  have 3: "?fa ! 1 = ''badger://'' @ Args_Get demo_ctx 0"
    using 1 meta_location_token [of "''/usr/bin/juicefs''" ?fa demo_env demo_ctx] by blast
  have 4: "?ma ! 1 = ''badger://'' @ Args_Get mount_ctx 0"
    using 2 meta_location_token [of "''/usr/bin/juicefs''" ?ma demo_env mount_ctx] by blast
  show ?thesis
    using 1 2 3 4 by simp
qed

text \<open>
  Claim C2, as amended. \<^verbatim>\<open>metaDirWithoutQuery\<close> returns what stands before the first
  question mark. \<^verbatim>\<open>format\<close> and \<^verbatim>\<open>mount\<close> validate that part of the meta location: it
  is the path whose absoluteness decides, the only path they probe, and the path named
  when the validation fails. \<^verbatim>\<open>checkpoint\<close> validates its old and its new location as
  the caller gave them, with nothing cut off.
\<close>

theorem validated_paths:
  assumes "cmd_prepare e c 2 = Return ()"
  shows "metaDirWithoutQuery m = takeWhile (\<lambda>ch. ch \<noteq> CHR ''?'') m \<and>
    (let p = takeWhile (\<lambda>ch. ch \<noteq> CHR ''?'') (Args_Get c 0) in
       (if \<not> IsAbs p then
          pantheonFormat e c = ([], Fatalf (''path must be absolute: '' @ p))
        else if os_Stat e p then
          pantheonFormat e c = ([EvStat p], Fatalf (''path already exists: '' @ p))
        else probed (fst (pantheonFormat e c)) = [p]) \<and>
       (if \<not> IsAbs p then
          pantheonMount e c = ([], Fatalf (''path must be absolute: '' @ p))
        else if \<not> os_Stat e p then
          pantheonMount e c = ([EvStat p], Fatalf (''path does not exist: '' @ p))
        else probed (fst (pantheonMount e c)) = [p])) \<and>
    (let old = Args_Get c 0; new = Args_Get c 1 in
       if \<not> IsAbs old then
         pantheonCheckpoint e c = ([], Fatalf (''path must be absolute: '' @ old))
       else if \<not> os_Stat e old then
         pantheonCheckpoint e c = ([EvStat old], Fatalf (''path does not exist: '' @ old))
       else if \<not> IsAbs new then
         pantheonCheckpoint e c = ([EvStat old], Fatalf (''path must be absolute: '' @ new))
       else if os_Stat e new then
         pantheonCheckpoint e c =
           ([EvStat old, EvStat new], Fatalf (''path already exists: '' @ new))
       else probed (fst (pantheonCheckpoint e c)) = [old, new])"
proof (intro conjI)
  show "metaDirWithoutQuery m = takeWhile (\<lambda>ch. ch \<noteq> CHR ''?'') m"
    by (rule metaDirWithoutQuery_takeWhile)
next
  let ?p = "takeWhile (\<lambda>ch. ch \<noteq> CHR ''?'') (Args_Get c 0)"
  have f: "pantheonFormat e c =
      andThen (validateAbsolutePath e ?p False) (\<lambda>u.
        andThen (pure (buildFlagArgs c)) (\<lambda>flagArgs.
          executeJuicefsCommand e
            ([''format'', ''badger://'' @ Args_Get c 0, Args_Get c 1, ''--trash-days=999''] @
             flagArgs)))"
    using assms
    by (simp add: pantheonFormat_def andThen_pure_Return metaDirWithoutQuery_takeWhile Let_def)
  have m: "pantheonMount e c =
      andThen (validateAbsolutePath e ?p True) (\<lambda>u.
        andThen (pure (buildFlagArgs c)) (\<lambda>flagArgs.
          executeJuicefsCommand e
            ([''mount'', ''badger://'' @ Args_Get c 0, Args_Get c 1] @ flagArgs)))"
    using assms
    by (simp add: pantheonMount_def andThen_pure_Return metaDirWithoutQuery_takeWhile Let_def)
  show "let p = ?p in
       (if \<not> IsAbs p then
          pantheonFormat e c = ([], Fatalf (''path must be absolute: '' @ p))
        else if os_Stat e p then
          pantheonFormat e c = ([EvStat p], Fatalf (''path already exists: '' @ p))
        else probed (fst (pantheonFormat e c)) = [p]) \<and>
       (if \<not> IsAbs p then
          pantheonMount e c = ([], Fatalf (''path must be absolute: '' @ p))
        else if \<not> os_Stat e p then
          pantheonMount e c = ([EvStat p], Fatalf (''path does not exist: '' @ p))
        else probed (fst (pantheonMount e c)) = [p])"
    unfolding Let_def f m
    by (simp add: validateAbsolutePath_def andThen_Return andThen_Fatalf probed_append
        andThen_flags_probed)
next
  let ?old = "Args_Get c 0" and ?new = "Args_Get c 1"
  have k: "pantheonCheckpoint e c =
      andThen (validateAbsolutePath e ?old True) (\<lambda>u.
        andThen (validateAbsolutePath e ?new False) (\<lambda>u.
          executeJuicefsCommand e [''clone'', ?old, ?new]))"
    using assms by (simp add: pantheonCheckpoint_def andThen_pure_Return Let_def)
  show "let old = ?old; new = ?new in
       if \<not> IsAbs old then
         pantheonCheckpoint e c = ([], Fatalf (''path must be absolute: '' @ old))
       else if \<not> os_Stat e old then
         pantheonCheckpoint e c = ([EvStat old], Fatalf (''path does not exist: '' @ old))
       else if \<not> IsAbs new then
         pantheonCheckpoint e c = ([EvStat old], Fatalf (''path must be absolute: '' @ new))
       else if os_Stat e new then
         pantheonCheckpoint e c =
           ([EvStat old, EvStat new], Fatalf (''path already exists: '' @ new))
       else probed (fst (pantheonCheckpoint e c)) = [old, new]"
    unfolding Let_def k
    by (simp add: validateAbsolutePath_def andThen_Return andThen_Fatalf probed_append
        executeJuicefsCommand_probed)
qed

theorem validated_paths_witness:
  "cmd_prepare demo_env mount_ctx 2 = Return () \<and>
   Args_Get mount_ctx 0 = ''/data/old?x=1'' \<and>
   metaDirWithoutQuery ''/data/old?x=1'' = ''/data/old'' \<and>
   pantheonFormat demo_env mount_ctx =
     ([EvStat ''/data/old''], Fatalf ''path already exists: /data/old'') \<and>
   probed (fst (pantheonMount demo_env mount_ctx)) = [''/data/old''] \<and>
   pantheonCheckpoint demo_env mount_ctx =
     ([EvStat ''/data/old?x=1''], Fatalf ''path does not exist: /data/old?x=1'')"
proof -
  have 1: "cmd_prepare demo_env mount_ctx 2 = Return ()"
    by (simp add: demo_env_def mount_ctx_def demo_ctx_def)
  have 2: "Args_Get mount_ctx 0 = ''/data/old?x=1''" "Args_Get mount_ctx 1 = ''/mnt/jfs''"
    by (simp_all add: Args_Get_def mount_ctx_def demo_ctx_def)
  have 3: "os_Stat demo_env = (\<lambda>p. p = ''/data/old'' \<or> p = ''data'')"
    by (simp add: demo_env_def)
  show ?thesis
    using 1 validated_paths [OF 1, of "''/data/old?x=1''"]
    by (simp add: 2 3 IsAbs_def Let_def)
qed

text \<open>
  Claim C2 as stated fails for \<^verbatim>\<open>checkpoint\<close>: the directory \<^verbatim>\<open>/data/old\<close> before the
  question mark exists and would pass the validation, and the subcommand ends because
  the whole value does not exist.
\<close>

theorem pantheonCheckpoint_unstripped:
  "pantheonCheckpoint demo_env checkpoint_ctx =
     ([EvStat ''/data/old?x=1''], Fatalf ''path does not exist: /data/old?x=1'') \<and>
   metaDirWithoutQuery ''/data/old?x=1'' = ''/data/old'' \<and>
   validateAbsolutePath demo_env ''/data/old'' True = ([EvStat ''/data/old''], Return ())"
  by (simp add: run_simps checkpoint_ctx_def demo_ctx_def)

end
